theory Spec2Isabelle
  imports Complex_Main "HOL-Library.List_Lexorder" "HOL-Library.Char_ord"
    "HOL-Library.Log_Nat" "HOL-Library.Word"
begin

section \<open>RFV segmentation (Entrega\_RFV.py)\<close>

text \<open>
  The script groups a purchase log by customer, derives recency, frequency and value,
  labels each indicator with a quartile class and lets the user filter and annotate the
  result. A Python exception is a value \<open>Inl (Raise cls)\<close>, where \<open>cls\<close> is the name of
  the exception class. Integer columns are 64-bit and wrap, timestamps and time
  differences are 64-bit counts of nanoseconds, and a Python integer meets a
  floating-point breakpoint after rounding to binary64. A floating-point number is a
  real; the floating-point summation of the library is a parameter. The missing-value
  markers (NaN, NaT) are outside the model.
\<close>

subsection \<open>Exceptions and dictionary access\<close>

datatype error = Raise string

definition getitem :: "('a \<rightharpoonup> 'b) \<Rightarrow> 'a \<Rightarrow> error + 'b" where
  \<comment> \<open>\<open>d[k]\<close>: a missing key raises KeyError\<close>
  "getitem d k = (case d k of None \<Rightarrow> Inl (Raise ''KeyError'') | Some v \<Rightarrow> Inr v)"

subsection \<open>The data-frame library\<close>

text \<open>
  The script calls the data-frame library and defines none of it. What the library
  decides on its own is a parameter of the model: the class of the exception it raises
  in each of six situations, and its summation of a floating-point column.
\<close>

record biblioteca =
  exc_sem_colunas :: string
  exc_parse_dates :: string
  exc_coluna :: string
  exc_soma_data :: string
  exc_data_limite :: string
  exc_intervalo_limite :: string
  soma_float64 :: "real list \<Rightarrow> real"


subsection \<open>Python numbers against binary64 breakpoints\<close>

text \<open>
  \<open>Series.apply\<close> hands the class functions a Python \<open>int\<close> from an integer column and
  a float from a floating-point column. The breakpoints are binary64 numbers, and the
  comparison \<open>x <= q\<close> converts an integer \<open>x\<close> to binary64 first: to the nearest
  number with a 53-bit significand, ties to the even significand. The integers of a
  column have 64 bits, far inside the range of binary64.
\<close>

datatype pynum = PyInt int | PyFloat real

definition expoente :: "int \<Rightarrow> nat" where
  \<comment> \<open>the bits of a magnitude beyond the 53 a significand holds\<close>
  "expoente a = floorlog 2 (nat a) - 53"

definition arredonda :: "nat \<Rightarrow> int \<Rightarrow> int" where
  \<comment> \<open>the nearest multiple of \<open>2 ^ k\<close>, ties to the even quotient\<close>
  "arredonda k a =
     (let q = a div 2 ^ k; r = a mod 2 ^ k
      in (if 2 ^ k < 2 * r \<or> (2 * r = 2 ^ k \<and> odd q) then q + 1 else q) * 2 ^ k)"

definition float64_of_int :: "int \<Rightarrow> real" where
  "float64_of_int n = real_of_int (sgn n * arredonda (expoente \<bar>n\<bar>) \<bar>n\<bar>)"

definition as_float64 :: "pynum \<Rightarrow> real" where
  "as_float64 x = (case x of PyInt n \<Rightarrow> float64_of_int n | PyFloat r \<Rightarrow> r)"

subsection \<open>Quartile classes (lines 41--60)\<close>

text \<open>
  \<open>q_dict\<close> is indexed first by the indicator name and then by the quantile level
  \<open>0.25\<close>, \<open>0.5\<close> or \<open>0.75\<close>. The levels are the rationals \<open>1/4\<close>, \<open>1/2\<close>, \<open>3/4\<close>.
  Each \<open>elif\<close> looks its breakpoint up only when the tests before it have failed.
\<close>

type_synonym quartis = "string \<rightharpoonup> (rat \<rightharpoonup> real)"

definition breakpoint :: "quartis \<Rightarrow> string \<Rightarrow> rat \<Rightarrow> error + real" where
  \<comment> \<open>\<open>q_dict[r][p]\<close>\<close>
  "breakpoint q_dict r p =
     (case getitem q_dict r of Inl e \<Rightarrow> Inl e | Inr col \<Rightarrow> getitem col p)"

definition recencia_class :: "pynum \<Rightarrow> string \<Rightarrow> quartis \<Rightarrow> error + string" where
  "recencia_class x r q_dict =
     (case breakpoint q_dict r (1/4) of Inl e \<Rightarrow> Inl e | Inr a \<Rightarrow>
        if as_float64 x \<le> a then Inr ''A''
        else (case breakpoint q_dict r (1/2) of Inl e \<Rightarrow> Inl e | Inr b \<Rightarrow>
          if as_float64 x \<le> b then Inr ''B''
          else (case breakpoint q_dict r (3/4) of Inl e \<Rightarrow> Inl e | Inr c \<Rightarrow>
            if as_float64 x \<le> c then Inr ''C'' else Inr ''D'')))"

definition frequencia_class :: "pynum \<Rightarrow> string \<Rightarrow> quartis \<Rightarrow> error + string" where
  "frequencia_class x f q_dict =
     (case breakpoint q_dict f (1/4) of Inl e \<Rightarrow> Inl e | Inr a \<Rightarrow>
        if as_float64 x \<le> a then Inr ''D''
        else (case breakpoint q_dict f (1/2) of Inl e \<Rightarrow> Inl e | Inr b \<Rightarrow>
          if as_float64 x \<le> b then Inr ''C''
          else (case breakpoint q_dict f (3/4) of Inl e \<Rightarrow> Inl e | Inr c \<Rightarrow>
            if as_float64 x \<le> c then Inr ''B'' else Inr ''A'')))"

text \<open>
  The letter swap the specification compares the two classifiers with: A with D,
  B with C; any other string is left alone.
\<close>

definition flip_class :: "string \<Rightarrow> string" where
  "flip_class s =
     (if s = ''A'' then ''D'' else if s = ''B'' then ''C''
      else if s = ''C'' then ''B'' else if s = ''D'' then ''A'' else s)"

subsection \<open>Purchases and the indicator table (lines 168--215)\<close>

text \<open>
  A row of \<open>df_compras\<close>. \<open>DiaCompra\<close> is what the date cell holds: a timestamp in
  nanoseconds once the column is converted, so a purchase may carry a time of day.
  \<open>CodigoCompra\<close> is \<open>None\<close> where the cell is empty: \<open>count()\<close> counts the filled
  cells of a group. \<open>ValorTotal\<close> is a 64-bit integer or a float. The customer
  identifier is any ordered scalar; \<open>groupby\<close> sorts the groups by it.
\<close>

datatype numero = Int64 "64 word" | Float64 real

record ('k, 'd) compra =
  ID_cliente :: 'k
  DiaCompra :: 'd
  CodigoCompra :: "string option"
  ValorTotal :: numero

definition limite :: int where
  \<comment> \<open>the largest timestamp and the largest time difference, in nanoseconds\<close>
  "limite = 2 ^ 63 - 1"

definition Timedelta :: "int \<Rightarrow> int" where
  \<comment> \<open>\<open>pd.Timedelta(days=n)\<close> in nanoseconds\<close>
  "Timedelta n = n * 86400000000000"

definition days :: "int \<Rightarrow> int" where
  \<comment> \<open>the \<open>.days\<close> attribute of a time difference: whole days, rounded down\<close>
  "days td = td div 86400000000000"

fun series_max :: "int list \<Rightarrow> int option" where
  \<comment> \<open>\<open>Series.max()\<close>; \<open>None\<close> is the NaT an empty series gives\<close>
  "series_max [] = None"
| "series_max (x # xs) = Some (fold max xs x)"

fun apply_series :: "('a \<Rightarrow> error + 'b) \<Rightarrow> 'a list \<Rightarrow> error + 'b list" where
  \<comment> \<open>\<open>Series.apply\<close>: the function on every value in turn, the first exception ends it\<close>
  "apply_series f [] = Inr []"
| "apply_series f (x # xs) =
     (case f x of
        Inl e \<Rightarrow> Inl e
      | Inr y \<Rightarrow> (case apply_series f xs of Inl e \<Rightarrow> Inl e | Inr ys \<Rightarrow> Inr (y # ys)))"

text \<open>
  Line 173: the latest purchase plus one day. The sum is a timestamp, and the library
  raises when it exceeds the largest one.
\<close>

definition dia_atual :: "biblioteca \<Rightarrow> ('k, int) compra list \<Rightarrow> error + int option" where
  "dia_atual lib df_compras =
     (case series_max (map DiaCompra df_compras) of
        None \<Rightarrow> Inr None
      | Some m \<Rightarrow>
          if limite < m + Timedelta 1 then Inl (Raise (exc_data_limite lib))
          else Inr (Some (m + Timedelta 1)))"

definition groupby :: "('k::linorder, 'd) compra list \<Rightarrow> ('k \<times> ('k, 'd) compra list) list" where
  \<comment> \<open>one group per distinct key, keys ascending, rows in their original order\<close>
  "groupby df =
     map (\<lambda>k. (k, filter (\<lambda>t. ID_cliente t = k) df)) (sort (remdups (map ID_cliente df)))"

text \<open>
  Recency: the last purchase of each group and then
  \<open>lambda x: (dia_atual - x).days\<close>. With no purchase at all there is no reference day
  and no group. A group holds at least the row that gave its key, so its last purchase
  is never \<open>None\<close>. The difference of two timestamps is a time difference, and the
  library raises when it exceeds the largest one.
\<close>

definition df_recencia ::
  "biblioteca \<Rightarrow> ('k::linorder, int) compra list \<Rightarrow> error + ('k \<times> int) list" where
  "df_recencia lib df_compras =
     (case dia_atual lib df_compras of
        Inl e \<Rightarrow> Inl e
      | Inr None \<Rightarrow> Inr []
      | Inr (Some hoje) \<Rightarrow>
          apply_series
            (\<lambda>(k, x). if limite < hoje - x then Inl (Raise (exc_intervalo_limite lib))
                       else Inr (k, days (hoje - x)))
            (List.map_filter
               (\<lambda>(k, g). map_option (\<lambda>x. (k, x)) (series_max (map DiaCompra g)))
               (groupby df_compras)))"

definition df_frequencia :: "('k::linorder, 'd) compra list \<Rightarrow> ('k \<times> nat) list" where
  "df_frequencia df_compras =
     map (\<lambda>(k, g). (k, length (filter (\<lambda>t. CodigoCompra t \<noteq> None) g))) (groupby df_compras)"

text \<open>
  Value: the sum of the amounts of each group. A column whose cells are all integers is
  an integer column, summed in 64 bits with wrap-around; otherwise it is a
  floating-point column, its integers converted to binary64, summed by the library.
\<close>

definition coluna_inteira :: "('k, 'd) compra list \<Rightarrow> bool" where
  "coluna_inteira df =
     list_all (\<lambda>t. case ValorTotal t of Int64 w \<Rightarrow> True | Float64 r \<Rightarrow> False) df"

definition inteiro_de :: "numero \<Rightarrow> 64 word" where
  "inteiro_de v = (case v of Int64 w \<Rightarrow> w | Float64 r \<Rightarrow> 0)"

definition float_de :: "numero \<Rightarrow> real" where
  "float_de v = (case v of Int64 w \<Rightarrow> float64_of_int (sint w) | Float64 r \<Rightarrow> r)"

definition soma_grupo :: "biblioteca \<Rightarrow> bool \<Rightarrow> ('k, 'd) compra list \<Rightarrow> numero" where
  "soma_grupo lib inteira g =
     (if inteira then Int64 (sum_list (map (\<lambda>t. inteiro_de (ValorTotal t)) g))
      else Float64 (soma_float64 lib (map (\<lambda>t. float_de (ValorTotal t)) g)))"

definition df_valor :: "biblioteca \<Rightarrow> ('k::linorder, 'd) compra list \<Rightarrow> ('k \<times> numero) list" where
  "df_valor lib df_compras =
     map (\<lambda>(k, g). (k, soma_grupo lib (coluna_inteira df_compras) g)) (groupby df_compras)"

definition merge :: "('k \<times> 'a) list \<Rightarrow> ('k \<times> 'b) list \<Rightarrow> ('k \<times> 'a \<times> 'b) list" where
  \<comment> \<open>inner join on the key: the order of the left table, every matching right row\<close>
  "merge left right =
     concat (map (\<lambda>(k, a). map (\<lambda>(k', b). (k, a, b)) (filter (\<lambda>(k', b). k' = k) right)) left)"

text \<open>
  The index of a table row: the customer after \<open>set_index("ID_cliente")\<close>, the position
  after \<open>reset_index(drop=True)\<close>.
\<close>

datatype 'k label = Cliente 'k | Pos nat

record 'k indicadores =
  index :: "'k label"
  Recencia :: int
  Frequencia :: nat
  Valor :: numero

definition juntar ::
  "('k \<times> int) list \<Rightarrow> ('k \<times> nat) list \<Rightarrow> ('k \<times> numero) list \<Rightarrow> 'k indicadores list" where
  \<comment> \<open>lines 209--215: the two merges and \<open>set_index\<close>\<close>
  "juntar recencia frequencia valor =
     map (\<lambda>(k, (r, f), v). \<lparr>index = Cliente k, Recencia = r, Frequencia = f, Valor = v\<rparr>)
       (merge (merge recencia frequencia) valor)"

definition df_RFV ::
  "biblioteca \<Rightarrow> ('k::linorder, int) compra list \<Rightarrow> error + 'k indicadores list" where
  "df_RFV lib df_compras =
     (case df_recencia lib df_compras of
        Inl e \<Rightarrow> Inl e
      | Inr recencia \<Rightarrow>
          Inr (juntar recencia (df_frequencia df_compras) (df_valor lib df_compras)))"

subsection \<open>Classification of the table (lines 222--234)\<close>

record 'k classificado = "'k indicadores" +
  R_quartil :: string
  F_quartil :: string
  V_quartil :: string

definition python_de :: "numero \<Rightarrow> pynum" where
  \<comment> \<open>the Python object \<open>apply\<close> passes for a cell\<close>
  "python_de v = (case v of Int64 w \<Rightarrow> PyInt (sint w) | Float64 r \<Rightarrow> PyFloat r)"

definition classificar :: "quartis \<Rightarrow> 'k indicadores list \<Rightarrow> error + 'k classificado list" where
  "classificar quartis df =
     (case apply_series (\<lambda>x. recencia_class x ''Recencia'' quartis)
             (map (\<lambda>r. PyInt (Recencia r)) df) of
        Inl e \<Rightarrow> Inl e
      | Inr rq \<Rightarrow>
     (case apply_series (\<lambda>x. frequencia_class x ''Frequencia'' quartis)
             (map (\<lambda>r. PyInt (int (Frequencia r))) df) of
        Inl e \<Rightarrow> Inl e
      | Inr fq \<Rightarrow>
     (case apply_series (\<lambda>x. frequencia_class x ''Valor'' quartis)
             (map (\<lambda>r. python_de (Valor r)) df) of
        Inl e \<Rightarrow> Inl e
      | Inr vq \<Rightarrow>
          Inr (map (\<lambda>(r, a, b, c).
                 \<lparr>index = index r, Recencia = Recencia r, Frequencia = Frequencia r,
                  Valor = Valor r, R_quartil = a, F_quartil = b, V_quartil = c\<rparr>)
               (zip df (zip rq (zip fq vq)))))))"

subsection \<open>Filtering by the selected classes (lines 63--67 and 261--280)\<close>

datatype cell = Num pynum | Str string

definition colunas :: "string list" where
  "colunas = [''Recencia'', ''Frequencia'', ''Valor'', ''R_quartil'', ''F_quartil'', ''V_quartil'']"

definition celula :: "string \<Rightarrow> 'k classificado \<Rightarrow> cell" where
  \<comment> \<open>the value of a row in the column \<open>col\<close>, for a name in \<open>colunas\<close>\<close>
  "celula col r =
     (if col = ''Recencia'' then Num (PyInt (Recencia r))
      else if col = ''Frequencia'' then Num (PyInt (int (Frequencia r)))
      else if col = ''Valor'' then Num (python_de (Valor r))
      else if col = ''R_quartil'' then Str (R_quartil r)
      else if col = ''F_quartil'' then Str (F_quartil r)
      else Str (V_quartil r))"

definition reset_index :: "'k classificado list \<Rightarrow> 'k classificado list" where
  \<comment> \<open>\<open>reset_index(drop=True)\<close>: the old index is dropped, the rows are numbered from 0\<close>
  "reset_index df = map (\<lambda>(i, r). r\<lparr>index := Pos i\<rparr>) (enumerate 0 df)"

definition selecao_valores_categoricos ::
  "'k classificado list \<Rightarrow> string \<Rightarrow> string \<Rightarrow> bool \<Rightarrow> error + 'k classificado list" where
  "selecao_valores_categoricos relatorio col selecionados verificacao =
     (if verificacao then Inr relatorio
      else if col \<notin> set colunas then Inl (Raise ''KeyError'')
      else Inr (reset_index (filter (\<lambda>r. celula col r = Str selecionados) relatorio)))"

definition df_RFV1 ::
  "'k classificado list \<Rightarrow> string \<Rightarrow> string \<Rightarrow> string \<Rightarrow> error + 'k classificado list" where
  "df_RFV1 df selecao_recencia selecao_frequencia selecao_valor =
     (case selecao_valores_categoricos df ''R_quartil'' selecao_recencia False of
        Inl e \<Rightarrow> Inl e
      | Inr d1 \<Rightarrow>
     (case selecao_valores_categoricos d1 ''F_quartil'' selecao_frequencia False of
        Inl e \<Rightarrow> Inl e
      | Inr d2 \<Rightarrow> selecao_valores_categoricos d2 ''V_quartil'' selecao_valor False))"

subsection \<open>The uploaded file (lines 134--140) and the whole computation\<close>

text \<open>
  The uploaded file is its header and its rows; a date cell is a timestamp when the
  library can read it as one and text otherwise. \<open>read_csv\<close> raises on a file with no
  column at all and when the column named in \<open>parse_dates\<close> is not in the header. It
  converts the date column only when every cell is a timestamp within the limits, and
  leaves it as text otherwise; line 173 then adds a time difference to a text and
  raises. Selecting or grouping by a column that the header lacks raises. The cells of a
  column absent from the header are never read. The script catches no exception.
\<close>

datatype data_lida = Data int | Texto string

record 'k upload =
  cabecalho :: "string list"
  linhas :: "('k, data_lida) compra list"

definition read_csv :: "biblioteca \<Rightarrow> 'k upload \<Rightarrow> error + 'k upload" where
  "read_csv lib uploaded_file =
     (if cabecalho uploaded_file = [] then Inl (Raise (exc_sem_colunas lib))
      else if ''DiaCompra'' \<notin> set (cabecalho uploaded_file)
        then Inl (Raise (exc_parse_dates lib))
      else Inr uploaded_file)"

fun como_data :: "data_lida \<Rightarrow> int option" where
  "como_data (Data v) = (if - limite \<le> v \<and> v \<le> limite then Some v else None)"
| "como_data (Texto s) = None"

fun datas_convertidas :: "('k, data_lida) compra list \<Rightarrow> ('k, int) compra list option" where
  "datas_convertidas [] = Some []"
| "datas_convertidas (t # ts) =
     (case como_data (DiaCompra t) of
        None \<Rightarrow> None
      | Some v \<Rightarrow>
          (case datas_convertidas ts of
             None \<Rightarrow> None
           | Some r \<Rightarrow>
               Some (\<lparr>ID_cliente = ID_cliente t, DiaCompra = v,
                      CodigoCompra = CodigoCompra t, ValorTotal = ValorTotal t\<rparr> # r)))"

definition calcular_df_RFV ::
  "biblioteca \<Rightarrow> ('k::linorder) upload \<Rightarrow> error + 'k indicadores list" where
  "calcular_df_RFV lib uploaded_file =
     (case read_csv lib uploaded_file of
        Inl e \<Rightarrow> Inl e
      | Inr df_compras \<Rightarrow>
     (case datas_convertidas (linhas df_compras) of
        None \<Rightarrow> Inl (Raise (exc_soma_data lib))
      | Some compras \<Rightarrow>
     (case dia_atual lib compras of
        Inl e \<Rightarrow> Inl e
      | Inr hoje \<Rightarrow>
          if ''ID_cliente'' \<notin> set (cabecalho df_compras) then Inl (Raise (exc_coluna lib))
          else
     (case df_recencia lib compras of
        Inl e \<Rightarrow> Inl e
      | Inr recencia \<Rightarrow>
          if ''CodigoCompra'' \<notin> set (cabecalho df_compras) then Inl (Raise (exc_coluna lib))
          else if ''ValorTotal'' \<notin> set (cabecalho df_compras) then Inl (Raise (exc_coluna lib))
          else Inr (juntar recencia (df_frequencia compras) (df_valor lib compras))))))"


subsection \<open>The comment map of the session (lines 81--82, 334--354, 436--446)\<close>

text \<open>
  \<open>st.session_state\<close> holds the comment map under the key \<open>comentarios_rfv\<close>
  (\<open>None\<close> when the key is absent) beside the values the widgets keep there.
\<close>

record session_state =
  comentarios_rfv :: "(string \<rightharpoonup> string) option"
  widgets :: "string \<rightharpoonup> string"

definition iniciar_comentarios :: "session_state \<Rightarrow> session_state" where
  \<comment> \<open>lines 81--82, at the start of every run of the script\<close>
  "iniciar_comentarios st =
     (if comentarios_rfv st = None then st\<lparr>comentarios_rfv := Some Map.empty\<rparr> else st)"

definition rfv_score_atual :: "string \<Rightarrow> string \<Rightarrow> string \<Rightarrow> string" where
  "rfv_score_atual selecao_recencia selecao_frequencia selecao_valor =
     selecao_recencia @ selecao_frequencia @ selecao_valor"

definition botoes_comentario ::
  "bool \<Rightarrow> bool \<Rightarrow> string \<Rightarrow> string \<Rightarrow> session_state \<Rightarrow> error + session_state" where
  \<comment> \<open>lines 348--354: store the comment, or else pop it\<close>
  "botoes_comentario submit_button erase_button score comentario_input st =
     (if submit_button then
        (case comentarios_rfv st of
           None \<Rightarrow> Inl (Raise ''KeyError'')
         | Some m \<Rightarrow> Inr (st\<lparr>comentarios_rfv := Some (m(score \<mapsto> comentario_input))\<rparr>))
      else if erase_button then
        (case comentarios_rfv st of
           None \<Rightarrow> Inl (Raise ''KeyError'')
         | Some m \<Rightarrow> Inr (st\<lparr>comentarios_rfv := Some (m(score := None))\<rparr>))
      else Inr st)"

definition limpar_comentarios :: "session_state \<Rightarrow> session_state" where
  \<comment> \<open>line 438: \<open>st.session_state.pop("comentarios_rfv", None)\<close>\<close>
  "limpar_comentarios st = st\<lparr>comentarios_rfv := None\<rparr>"

definition limpar_dados :: "session_state \<Rightarrow> session_state" where
  \<comment> \<open>line 445: \<open>st.session_state.clear()\<close>\<close>
  "limpar_dados st = \<lparr>comentarios_rfv = None, widgets = Map.empty\<rparr>"

text \<open>
  A click runs the callback of the button and then the script again from its first
  line, so the comment map the next run works with is the one after
  \<open>iniciar_comentarios\<close>.
\<close>

definition comentarios_visiveis :: "session_state \<Rightarrow> (string \<rightharpoonup> string) option" where
  "comentarios_visiveis st = comentarios_rfv (iniciar_comentarios st)"

subsection \<open>Notions used to state the results\<close>

definition valor_de :: "pynum \<Rightarrow> real" where
  \<comment> \<open>the number a Python object stands for\<close>
  "valor_de x = (case x of PyInt n \<Rightarrow> real_of_int n | PyFloat r \<Rightarrow> r)"

definition exato :: "pynum \<Rightarrow> bool" where
  \<comment> \<open>a float, or an integer of magnitude at most \<open>2 ^ 53\<close>\<close>
  "exato x = (case x of PyInt n \<Rightarrow> \<bar>n\<bar> \<le> 2 ^ 53 | PyFloat r \<Rightarrow> True)"

fun menor :: "pynum \<Rightarrow> pynum \<Rightarrow> bool" where
  \<comment> \<open>strictly smaller, for two values of one column: both integers or both floats\<close>
  "menor (PyInt a) (PyInt b) = (a < b)"
| "menor (PyFloat a) (PyFloat b) = (a < b)"
| "menor (PyInt a) (PyFloat b) = False"
| "menor (PyFloat a) (PyInt b) = False"

definition clientes :: "('k::linorder, 'd) compra list \<Rightarrow> 'k list" where
  \<comment> \<open>the distinct customers of the purchases, ascending\<close>
  "clientes df = sort (remdups (map ID_cliente df))"

definition compras_de :: "'k \<Rightarrow> ('k, 'd) compra list \<Rightarrow> ('k, 'd) compra list" where
  "compras_de k df = filter (\<lambda>t. ID_cliente t = k) df"

definition ultima_compra :: "'k \<Rightarrow> ('k, int) compra list \<Rightarrow> int" where
  "ultima_compra k df = Max (DiaCompra ` {t \<in> set df. ID_cliente t = k})"

definition dentro_dos_limites :: "('k, int) compra list \<Rightarrow> bool" where
  \<comment> \<open>the reference day is a timestamp and every recency interval a time difference\<close>
  "dentro_dos_limites df =
     (\<forall>t \<in> set df.
        Max (DiaCompra ` set df) + Timedelta 1 \<le> limite \<and>
        Max (DiaCompra ` set df) + Timedelta 1 - ultima_compra (ID_cliente t) df \<le> limite)"

definition recencia_de :: "'k \<Rightarrow> ('k, int) compra list \<Rightarrow> int" where
  \<comment> \<open>whole days from the last purchase of a customer to the day after the latest purchase\<close>
  "recencia_de k df = days (Max (DiaCompra ` set df) + Timedelta 1 - ultima_compra k df)"

definition tabela_esperada ::
  "biblioteca \<Rightarrow> ('k::linorder, int) compra list \<Rightarrow> 'k indicadores list" where
  \<comment> \<open>one row per customer, ascending\<close>
  "tabela_esperada lib df =
     map (\<lambda>k. \<lparr>index = Cliente k, Recencia = recencia_de k df,
               Frequencia = length (filter (\<lambda>t. CodigoCompra t \<noteq> None) (compras_de k df)),
               Valor = soma_grupo lib (coluna_inteira df) (compras_de k df)\<rparr>) (clientes df)"


subsection \<open>Sample data\<close>

definition quartis_exemplo :: quartis where
  \<comment> \<open>a table with the breakpoints 2, 5, 9 for every indicator\<close>
  "quartis_exemplo = (\<lambda>k. Some [1/4 \<mapsto> 2, 1/2 \<mapsto> 5, 3/4 \<mapsto> 9])"

definition quartis_2p53 :: quartis where
  \<comment> \<open>a table with the three breakpoints at \<open>2 ^ 53\<close>\<close>
  "quartis_2p53 =
     (\<lambda>k. Some [1/4 \<mapsto> 9007199254740992, 1/2 \<mapsto> 9007199254740992,
                 3/4 \<mapsto> 9007199254740992])"

text \<open>
  A library for the samples, with the exception classes of one release of the
  data-frame library. Its floating-point summation adds without rounding; the samples
  have integer amounts and do not depend on it.
\<close>

definition biblioteca_exemplo :: biblioteca where
  "biblioteca_exemplo =
     \<lparr>exc_sem_colunas = ''EmptyDataError'', exc_parse_dates = ''ValueError'',
      exc_coluna = ''KeyError'', exc_soma_data = ''TypeError'',
      exc_data_limite = ''OutOfBoundsDatetime'',
      exc_intervalo_limite = ''OutOfBoundsTimedelta'', soma_float64 = sum_list\<rparr>"

text \<open>
  Three purchases of two customers on 2024-01-01, 2024-01-05 and 2024-01-10 (days 19723,
  19727 and 19732 of the epoch); both purchases of C1 carry the same purchase code.
\<close>

definition compras_exemplo :: "(string, int) compra list" where
  "compras_exemplo =
     [\<lparr>ID_cliente = ''C1'', DiaCompra = Timedelta 19723, CodigoCompra = Some ''T1'',
       ValorTotal = Int64 100\<rparr>,
      \<lparr>ID_cliente = ''C2'', DiaCompra = Timedelta 19727, CodigoCompra = Some ''T3'',
       ValorTotal = Int64 200\<rparr>,
      \<lparr>ID_cliente = ''C1'', DiaCompra = Timedelta 19732, CodigoCompra = Some ''T1'',
       ValorTotal = Int64 50\<rparr>]"


text \<open>
  One purchase on 2262-04-11 (day 106751 of the epoch), less than a day before the
  largest timestamp.
\<close>

definition compras_2262 :: "(string, int) compra list" where
  "compras_2262 =
     [\<lparr>ID_cliente = ''C1'', DiaCompra = Timedelta 106751, CodigoCompra = Some ''T1'',
       ValorTotal = Int64 100\<rparr>]"

definition linhas_exemplo :: "(string, data_lida) compra list" where
  "linhas_exemplo =
     [\<lparr>ID_cliente = ''C1'', DiaCompra = Data (Timedelta 19723), CodigoCompra = Some ''T1'',
       ValorTotal = Int64 100\<rparr>,
      \<lparr>ID_cliente = ''C2'', DiaCompra = Data (Timedelta 19727), CodigoCompra = Some ''T3'',
       ValorTotal = Int64 200\<rparr>,
      \<lparr>ID_cliente = ''C1'', DiaCompra = Data (Timedelta 19732), CodigoCompra = Some ''T1'',
       ValorTotal = Int64 50\<rparr>]"

definition arquivo_exemplo :: "string upload" where
  "arquivo_exemplo =
     \<lparr>cabecalho = [''ID_cliente'', ''DiaCompra'', ''CodigoCompra'', ''ValorTotal''],
      linhas = linhas_exemplo\<rparr>"




definition tabela_classificada :: "string classificado list" where
  "tabela_classificada =
     [\<lparr>index = Cliente ''C1'', Recencia = 1, Frequencia = 2, Valor = Int64 150,
       R_quartil = ''A'', F_quartil = ''A'', V_quartil = ''A''\<rparr>,
      \<lparr>index = Cliente ''C2'', Recencia = 6, Frequencia = 1, Valor = Int64 200,
       R_quartil = ''D'', F_quartil = ''D'', V_quartil = ''A''\<rparr>,
      \<lparr>index = Cliente ''C3'', Recencia = 2, Frequencia = 3, Valor = Int64 170,
       R_quartil = ''A'', F_quartil = ''A'', V_quartil = ''A''\<rparr>]"

definition sessao_exemplo :: session_state where
  "sessao_exemplo =
     \<lparr>comentarios_rfv = Some [''ABA'' \<mapsto> ''reativar'', ''DDD'' \<mapsto> ''cupom''],
      widgets = Map.empty\<rparr>"

section \<open>Properties\<close>

subsection \<open>Rounding an integer to binary64\<close>

lemma div_less_of_less_mult:
  assumes "0 < c" "a < m * c"
  shows "a div c < (m::int)"
proof (rule ccontr)
  assume "\<not> a div c < m"
  then have "m \<le> a div c" by simp
  then have 1: "m * c \<le> a div c * c" using assms(1) by (simp add: mult_right_mono)
  have 2: "a div c * c + a mod c = a" by simp
  have 3: "0 \<le> a mod c" using assms(1) by simp
  from 1 2 3 assms(2) show False by linarith
qed

lemma expoente_eqI:
  assumes "2 ^ (52 + k) \<le> a" "a < 2 ^ (53 + k)"
  shows "expoente a = k"
proof -
  have "(0::int) < 2 ^ (52 + k)" by simp
  with assms(1) have a: "0 < a" by linarith
  have "(2::nat) ^ (52 + k) \<le> nat a"
    using assms(1) a by (simp add: le_nat_iff)
  then have ge: "Suc (52 + k) \<le> floorlog 2 (nat a)"
    by (intro floorlog_ge_SucI) simp_all
  have "nat a < 2 ^ (53 + k)"
    using assms(2) a by (simp add: nat_less_iff)
  then have le: "floorlog 2 (nat a) \<le> 53 + k"
    by (intro floorlog_leI) simp_all
  from ge le show ?thesis by (simp add: expoente_def)
qed

lemma expoente_small:
  assumes "a < 2 ^ 53"
  shows "expoente a = 0"
proof (cases "0 < a")
  case True
  then have "nat a < 2 ^ 53" using assms by (simp add: nat_less_iff)
  then have "floorlog 2 (nat a) \<le> 53" by (intro floorlog_leI) simp_all
  then show ?thesis by (simp add: expoente_def)
next
  case False
  then show ?thesis by (simp add: expoente_def floorlog_def)
qed

lemma expoente_bounds:
  assumes "2 ^ 53 \<le> a"
  shows "2 ^ (52 + expoente a) \<le> a \<and> a < 2 ^ (53 + expoente a)"
proof -
  have "(0::int) < 2 ^ 53" by simp
  with assms have a: "0 < a" by linarith
  then have n: "0 < nat a" by simp
  have "(2::nat) ^ 53 \<le> nat a" using assms a by (simp add: le_nat_iff)
  then have ge: "54 \<le> floorlog 2 (nat a)"
    using floorlog_ge_SucI [of 2 53 "nat a"] by simp
  then have eq: "floorlog 2 (nat a) = 53 + expoente a" "floorlog 2 (nat a) - 1 = 52 + expoente a"
    by (simp_all add: expoente_def)
  from floorlog_bounds [OF n, of 2]
  have "2 ^ (52 + expoente a) \<le> nat a \<and> nat a < 2 ^ (53 + expoente a)"
    by (simp add: eq)
  then show ?thesis using a by (simp add: le_nat_iff nat_less_iff)
qed

lemma expoente_mono: "a \<le> b \<Longrightarrow> expoente a \<le> expoente b"
  unfolding expoente_def by (intro diff_le_mono floorlog_mono nat_mono)

lemma arredonda_0 [simp]: "arredonda 0 a = a"
  by (simp add: arredonda_def)

lemma arredonda_lower: "a div 2 ^ k * 2 ^ k \<le> arredonda k a"
  by (simp add: arredonda_def Let_def)

lemma arredonda_upper: "arredonda k a \<le> (a div 2 ^ k + 1) * 2 ^ k"
  by (simp add: arredonda_def Let_def)

lemma arredonda_nonneg: "0 \<le> a \<Longrightarrow> 0 \<le> arredonda k a"
proof -
  assume "0 \<le> a"
  then have "0 \<le> a div 2 ^ k * 2 ^ k" by (simp add: pos_imp_zdiv_nonneg_iff)
  with arredonda_lower [of a k] show ?thesis by linarith
qed

lemma arredonda_mono:
  assumes "a \<le> b"
  shows "arredonda k a \<le> arredonda k b"
proof -
  have q: "a div 2 ^ k \<le> b div 2 ^ k" using assms by (simp add: zdiv_mono1)
  show ?thesis
  proof (cases "a div 2 ^ k = b div 2 ^ k")
    case True
    have "a mod 2 ^ k \<le> b mod 2 ^ k"
      using assms True by (metis add_le_cancel_left mult_div_mod_eq)
    then show ?thesis
      by (auto simp: arredonda_def Let_def True)
  next
    case False
    with q have "a div 2 ^ k + 1 \<le> b div 2 ^ k" by simp
    then have "(a div 2 ^ k + 1) * 2 ^ k \<le> b div 2 ^ k * 2 ^ k"
      by (simp add: mult_right_mono)
    with arredonda_upper [of k a] arredonda_lower [of b k] show ?thesis by linarith
  qed
qed

lemma arredonda_expoente_mono:
  assumes "0 \<le> a" "a \<le> b"
  shows "arredonda (expoente a) a \<le> arredonda (expoente b) b"
proof (cases "expoente a = expoente b")
  case True
  then show ?thesis using arredonda_mono [OF assms(2)] by simp
next
  case False
  with expoente_mono [OF assms(2)] have lt: "expoente a < expoente b" by simp
  then have b53: "2 ^ 53 \<le> b" using expoente_small [of b] by (cases "b < 2 ^ 53") simp_all
  from expoente_bounds [OF b53] have "2 ^ (52 + expoente b) \<le> b" by simp
  then have "2 ^ 52 * 2 ^ expoente b \<le> b" by (simp add: power_add)
  then have "(2 ^ 52 * 2 ^ expoente b) div 2 ^ expoente b \<le> b div 2 ^ expoente b"
    by (rule zdiv_mono1) simp
  then have q52: "2 ^ 52 \<le> b div 2 ^ expoente b" by simp
  have "(2::int) ^ 52 * 2 ^ expoente b \<le> b div 2 ^ expoente b * 2 ^ expoente b"
    using q52 by (rule mult_right_mono) simp
  then have "(2::int) ^ (52 + expoente b) \<le> b div 2 ^ expoente b * 2 ^ expoente b"
    by (simp only: power_add)
  from order_trans [OF this arredonda_lower]
  have low: "2 ^ (52 + expoente b) \<le> arredonda (expoente b) b" .
  have up: "arredonda (expoente a) a \<le> 2 ^ (53 + expoente a)"
  proof (cases "a < 2 ^ 53")
    case True
    then have "expoente a = 0" by (rule expoente_small)
    with True show ?thesis by simp
  next
    case False
    then have "2 ^ 53 \<le> a" by simp
    from expoente_bounds [OF this] have "a < 2 ^ (53 + expoente a)" by simp
    then have lt: "a < 2 ^ 53 * 2 ^ expoente a" by (simp only: power_add)
    have "a div 2 ^ expoente a < 2 ^ 53"
      by (rule div_less_of_less_mult [OF _ lt]) simp
    then have "a div 2 ^ expoente a + 1 \<le> 2 ^ 53" by simp
    then have "(a div 2 ^ expoente a + 1) * 2 ^ expoente a \<le> 2 ^ 53 * 2 ^ expoente a"
      by (rule mult_right_mono) simp
    then have "(a div 2 ^ expoente a + 1) * 2 ^ expoente a \<le> 2 ^ (53 + expoente a)"
      by (simp only: power_add)
    from order_trans [OF arredonda_upper this] show ?thesis .
  qed
  have "(2::int) ^ (53 + expoente a) \<le> 2 ^ (52 + expoente b)"
    using lt by (intro power_increasing) simp_all
  with low up show ?thesis by linarith
qed

lemma float64_of_int_mono:
  assumes "n \<le> m"
  shows "float64_of_int n \<le> float64_of_int m"
proof -
  have "sgn n * arredonda (expoente \<bar>n\<bar>) \<bar>n\<bar> \<le> sgn m * arredonda (expoente \<bar>m\<bar>) \<bar>m\<bar>"
  proof (cases "0 \<le> n")
    case True
    with assms have m: "0 \<le> m" by simp
    from arredonda_expoente_mono [of "\<bar>n\<bar>" "\<bar>m\<bar>"] True m assms
    have le: "arredonda (expoente \<bar>n\<bar>) \<bar>n\<bar> \<le> arredonda (expoente \<bar>m\<bar>) \<bar>m\<bar>" by simp
    show ?thesis
    proof (cases "n = 0")
      case True
      then show ?thesis using m arredonda_nonneg [of "\<bar>m\<bar>" "expoente \<bar>m\<bar>"]
        by (simp add: sgn_if)
    next
      case False
      with True assms have "0 < n" "0 < m" by simp_all
      with le show ?thesis by (simp add: sgn_if)
    qed
  next
    case False
    then have n: "n < 0" by simp
    show ?thesis
    proof (cases "m < 0")
      case True
      from arredonda_expoente_mono [of "\<bar>m\<bar>" "\<bar>n\<bar>"] True n assms
      have "arredonda (expoente \<bar>m\<bar>) \<bar>m\<bar> \<le> arredonda (expoente \<bar>n\<bar>) \<bar>n\<bar>" by simp
      with True n show ?thesis by (simp add: sgn_if)
    next
      case False
      then have "0 \<le> sgn m * arredonda (expoente \<bar>m\<bar>) \<bar>m\<bar>"
        using arredonda_nonneg [of "\<bar>m\<bar>" "expoente \<bar>m\<bar>"] by (simp add: sgn_if)
      moreover have "sgn n * arredonda (expoente \<bar>n\<bar>) \<bar>n\<bar> \<le> 0"
        using n arredonda_nonneg [of "\<bar>n\<bar>" "expoente \<bar>n\<bar>"] by (simp add: sgn_if)
      ultimately show ?thesis by linarith
    qed
  qed
  then show ?thesis unfolding float64_of_int_def by (simp only: of_int_le_iff)
qed

lemma float64_of_int_exact:
  assumes "\<bar>n\<bar> \<le> 2 ^ 53"
  shows "float64_of_int n = real_of_int n"
proof -
  have "arredonda (expoente \<bar>n\<bar>) \<bar>n\<bar> = \<bar>n\<bar>"
  proof (cases "\<bar>n\<bar> < 2 ^ 53")
    case True
    then show ?thesis by (simp add: expoente_small)
  next
    case False
    with assms have eq: "\<bar>n\<bar> = 2 ^ 53" by simp
    have "expoente (2 ^ 53) = 1" by (rule expoente_eqI) simp_all
    then show ?thesis unfolding eq by (simp add: arredonda_def)
  qed
  then show ?thesis by (simp add: float64_of_int_def sgn_if abs_if split: if_splits)
qed

lemma float64_of_2p53_1: "float64_of_int 9007199254740993 = 9007199254740992"
proof -
  have "expoente 9007199254740993 = 1" by (rule expoente_eqI) simp_all
  then show ?thesis by (simp add: float64_of_int_def arredonda_def)
qed

lemma as_float64_exato: "exato x \<Longrightarrow> as_float64 x = valor_de x"
  by (cases x) (simp_all add: exato_def as_float64_def valor_de_def float64_of_int_exact)

lemma as_float64_mono: "menor x1 x2 \<Longrightarrow> as_float64 x1 \<le> as_float64 x2"
  by (cases x1; cases x2) (simp_all add: as_float64_def float64_of_int_mono)

subsection \<open>The quartile classes\<close>

text \<open>
  C1, as amended. With the breakpoints \<open>a\<close>, \<open>b\<close>, \<open>c\<close> stored at the levels 0.25, 0.5
  and 0.75 of the indicator \<open>k\<close>, and with \<open>x'\<close> the value \<open>x\<close> is compared as (\<open>x\<close>
  itself for a float and for an integer of magnitude at most \<open>2 ^ 53\<close>, otherwise \<open>x\<close>
  rounded to binary64), the recency class of \<open>x\<close> is A if \<open>x' \<le> a\<close>, B if
  \<open>a < x' \<le> b\<close>, C if \<open>b < x' \<le> c\<close> and D otherwise, and the frequency or value class
  is D, C, B, A under the same four conditions, taken in this order, for every table.
  When the table is ordered at its first two levels (\<open>a \<le> b\<close>, as quartiles are) each
  of the four conditions decides the class on its own. A value equal to a breakpoint
  falls under the condition that ends at that breakpoint: the better letter for recency,
  the worse for frequency and value.
\<close>

theorem classes_by_quartile:
  assumes "q k = Some col" "col (1/4) = Some a" "col (1/2) = Some b" "col (3/4) = Some c"
  shows "recencia_class x k q =
           Inr (if as_float64 x \<le> a then ''A'' else if a < as_float64 x \<and> as_float64 x \<le> b then ''B''
                else if b < as_float64 x \<and> as_float64 x \<le> c then ''C'' else ''D'')
       \<and> frequencia_class x k q =
           Inr (if as_float64 x \<le> a then ''D'' else if a < as_float64 x \<and> as_float64 x \<le> b then ''C''
                else if b < as_float64 x \<and> as_float64 x \<le> c then ''B'' else ''A'')
       \<and> (a \<le> b \<longrightarrow>
            (as_float64 x \<le> a \<longrightarrow>
               recencia_class x k q = Inr ''A'' \<and> frequencia_class x k q = Inr ''D'')
          \<and> (a < as_float64 x \<and> as_float64 x \<le> b \<longrightarrow>
               recencia_class x k q = Inr ''B'' \<and> frequencia_class x k q = Inr ''C'')
          \<and> (b < as_float64 x \<and> as_float64 x \<le> c \<longrightarrow>
               recencia_class x k q = Inr ''C'' \<and> frequencia_class x k q = Inr ''B'')
          \<and> (\<not> as_float64 x \<le> a \<and> \<not> (a < as_float64 x \<and> as_float64 x \<le> b)
               \<and> \<not> (b < as_float64 x \<and> as_float64 x \<le> c) \<longrightarrow>
               recencia_class x k q = Inr ''D'' \<and> frequencia_class x k q = Inr ''A''))
       \<and> (exato x \<longrightarrow> as_float64 x = valor_de x)"
proof -
  have r: "recencia_class x k q =
           Inr (if as_float64 x \<le> a then ''A'' else if as_float64 x \<le> b then ''B''
                else if as_float64 x \<le> c then ''C'' else ''D'')"
    by (simp add: recencia_class_def breakpoint_def getitem_def assms)
  have f: "frequencia_class x k q =
           Inr (if as_float64 x \<le> a then ''D'' else if as_float64 x \<le> b then ''C''
                else if as_float64 x \<le> c then ''B'' else ''A'')"
    by (simp add: frequencia_class_def breakpoint_def getitem_def assms)
  show ?thesis unfolding r f using as_float64_exato [of x] by auto
qed

theorem classes_by_quartile_witness:
  "recencia_class (PyInt 5) ''Recencia'' quartis_exemplo = Inr ''B''
   \<and> frequencia_class (PyInt 5) ''Recencia'' quartis_exemplo = Inr ''C''
   \<and> recencia_class (PyFloat 6) ''Recencia'' quartis_exemplo = Inr ''C''
   \<and> frequencia_class (PyInt 10) ''Recencia'' quartis_exemplo = Inr ''A''
   \<and> exato (PyInt 5) \<and> as_float64 (PyInt 5) = 5"
  using
    classes_by_quartile
      [of quartis_exemplo "''Recencia''" "[1/4 \<mapsto> 2, 1/2 \<mapsto> 5, 3/4 \<mapsto> 9]" 2 5 9 "PyInt 5"]
    classes_by_quartile
      [of quartis_exemplo "''Recencia''" "[1/4 \<mapsto> 2, 1/2 \<mapsto> 5, 3/4 \<mapsto> 9]" 2 5 9 "PyFloat 6"]
    classes_by_quartile
      [of quartis_exemplo "''Recencia''" "[1/4 \<mapsto> 2, 1/2 \<mapsto> 5, 3/4 \<mapsto> 9]" 2 5 9 "PyInt 10"]
  by (simp add: quartis_exemplo_def exato_def valor_de_def as_float64_def)

text \<open>
  The claim as first stated compares the value itself. The integer \<open>2 ^ 53 + 1\<close> lies
  above three breakpoints at \<open>2 ^ 53\<close>, so the claim gives it the recency class D and
  the value class A; it is compared as \<open>2 ^ 53\<close> and gets A and D.
\<close>

theorem classes_by_quartile_counterexample:
  "quartis_2p53 ''Valor'' = Some [1/4 \<mapsto> 9007199254740992, 1/2 \<mapsto> 9007199254740992,
                                    3/4 \<mapsto> 9007199254740992]
   \<and> (9007199254740992 :: real) < valor_de (PyInt 9007199254740993)
   \<and> recencia_class (PyInt 9007199254740993) ''Valor'' quartis_2p53 = Inr ''A''
   \<and> frequencia_class (PyInt 9007199254740993) ''Valor'' quartis_2p53 = Inr ''D''"
  by (simp add: quartis_2p53_def valor_de_def recencia_class_def frequencia_class_def
        breakpoint_def getitem_def as_float64_def float64_of_2p53_1)

text \<open>
  C5. For a fixed table and indicator and two values of one column, whenever both get
  a class, \<open>x1 < x2\<close> gives a recency class of \<open>x1\<close> that is alphabetically at most
  that of \<open>x2\<close>, and a frequency or value class of \<open>x2\<close> that is alphabetically at most
  that of \<open>x1\<close>.
\<close>

theorem class_monotone:
  assumes "menor x1 x2"
  shows "(\<forall>c1 c2. recencia_class x1 k q = Inr c1 \<and> recencia_class x2 k q = Inr c2
            \<longrightarrow> c1 \<le> c2)
       \<and> (\<forall>c1 c2. frequencia_class x1 k q = Inr c1 \<and> frequencia_class x2 k q = Inr c2
            \<longrightarrow> c2 \<le> c1)"
  using as_float64_mono [OF assms]
  by (auto simp: recencia_class_def frequencia_class_def split: sum.splits if_splits)

theorem class_monotone_witness:
  "menor (PyFloat 1) (PyFloat 7)
   \<and> recencia_class (PyFloat 1) ''Valor'' quartis_exemplo = Inr ''A''
   \<and> recencia_class (PyFloat 7) ''Valor'' quartis_exemplo = Inr ''C''
   \<and> ''A'' \<le> ''C''
   \<and> frequencia_class (PyFloat 1) ''Valor'' quartis_exemplo = Inr ''D''
   \<and> frequencia_class (PyFloat 7) ''Valor'' quartis_exemplo = Inr ''B''
   \<and> ''B'' \<le> ''D''
   \<and> menor (PyInt 9007199254740992) (PyInt 9007199254740993)
   \<and> frequencia_class (PyInt 9007199254740992) ''Valor'' quartis_2p53 = Inr ''D''
   \<and> frequencia_class (PyInt 9007199254740993) ''Valor'' quartis_2p53 = Inr ''D''"
  using class_monotone [of "PyFloat 1" "PyFloat 7" "''Valor''" quartis_exemplo]
    class_monotone [of "PyInt 9007199254740992" "PyInt 9007199254740993" "''Valor''" quartis_2p53]
  by (simp add: recencia_class_def frequencia_class_def breakpoint_def getitem_def
        quartis_exemplo_def quartis_2p53_def as_float64_def float64_of_2p53_1
        float64_of_int_exact)

text \<open>
  C10. For every value, indicator name and table, the recency classifier returns the
  frequency classifier's result with the letter swapped (A with D, B with C), and the
  other way round; a KeyError of one is the same KeyError of the other.
\<close>

theorem recencia_is_flipped_frequencia:
  "recencia_class x k q = map_sum id flip_class (frequencia_class x k q)
   \<and> frequencia_class x k q = map_sum id flip_class (recencia_class x k q)"
  by (simp add: recencia_class_def frequencia_class_def flip_class_def split: sum.splits)

subsection \<open>The indicator table, one row per customer\<close>

lemma series_max_Max:
  assumes "xs \<noteq> []"
  shows "series_max xs = Some (Max (set xs))"
proof (cases xs)
  case Nil
  with assms show ?thesis by simp
next
  case (Cons a list)
  have "Max (set (a # list)) = fold max list a" by (rule Max.set_eq_fold)
  with Cons show ?thesis by simp
qed

lemma groupby_eq: "groupby df = map (\<lambda>k. (k, compras_de k df)) (clientes df)"
  by (simp add: groupby_def clientes_def compras_de_def)

lemma set_clientes: "set (clientes df) = ID_cliente ` set df"
  by (simp add: clientes_def)

lemma distinct_clientes: "distinct (clientes df)"
  by (simp add: clientes_def)

lemma compras_de_nonempty: "k \<in> set (clientes df) \<Longrightarrow> compras_de k df \<noteq> []"
  by (auto simp: set_clientes compras_de_def filter_empty_conv)

lemma map_filter_all_Some:
  "(\<And>x. x \<in> set xs \<Longrightarrow> f x = Some (g x)) \<Longrightarrow> List.map_filter f xs = map g xs"
  by (induction xs) simp_all

lemma ultimas_compras:
  "List.map_filter (\<lambda>(k, g). map_option (\<lambda>x. (k, x)) (series_max (map DiaCompra g)))
     (groupby df)
   = map (\<lambda>k. (k, ultima_compra k df)) (clientes df)"
proof -
  have g: "series_max (map DiaCompra (compras_de k df)) = Some (ultima_compra k df)"
    if "k \<in> set (clientes df)" for k
    using compras_de_nonempty [OF that]
    by (simp add: series_max_Max ultima_compra_def compras_de_def)
  have "List.map_filter (\<lambda>(k, g). map_option (\<lambda>x. (k, x)) (series_max (map DiaCompra g)))
          (groupby df)
        = map (\<lambda>(k, g). (k, ultima_compra k df)) (groupby df)"
    by (rule map_filter_all_Some) (auto simp: groupby_eq g)
  then show ?thesis by (simp add: groupby_eq comp_def)
qed

lemma dia_atual_eq:
  assumes "df \<noteq> []"
  shows "dia_atual lib df =
           (if Max (DiaCompra ` set df) + Timedelta 1 \<le> limite
            then Inr (Some (Max (DiaCompra ` set df) + Timedelta 1))
            else Inl (Raise (exc_data_limite lib)))"
  using assms by (simp add: dia_atual_def series_max_Max)

lemma apply_series_all_Inr:
  "(\<And>x. x \<in> set xs \<Longrightarrow> f x = Inr (g x)) \<Longrightarrow> apply_series f xs = Inr (map g xs)"
  by (induction xs) simp_all

lemma apply_series_Inr_map:
  assumes "apply_series f xs = Inr ys"
    and "\<And>x y. x \<in> set xs \<Longrightarrow> f x = Inr y \<Longrightarrow> y = g x"
  shows "ys = map g xs"
  using assms
proof (induction xs arbitrary: ys)
  case Nil
  then show ?case by simp
next
  case (Cons x xs)
  from Cons.prems(1) obtain y zs where y: "f x = Inr y" and zs: "apply_series f xs = Inr zs"
    and ys: "ys = y # zs"
    by (auto split: sum.splits)
  from Cons.prems(2) [of x y] y have "y = g x" by simp
  moreover from Cons.IH [OF zs] Cons.prems(2) have "zs = map g xs" by simp
  ultimately show ?case using ys by simp
qed

lemma df_recencia_Inr:
  assumes "df_recencia lib df = Inr rec"
  shows "rec = map (\<lambda>k. (k, recencia_de k df)) (clientes df)"
proof (cases "df = []")
  case True
  with assms show ?thesis by (simp add: df_recencia_def dia_atual_def clientes_def)
next
  case False
  let ?hoje = "Max (DiaCompra ` set df) + Timedelta 1"
  from assms have ok: "?hoje \<le> limite"
    by (auto simp: df_recencia_def dia_atual_eq [OF False] split: if_splits)
  then have d: "dia_atual lib df = Inr (Some ?hoje)"
    by (simp add: dia_atual_eq [OF False])
  from assms have "apply_series
      (\<lambda>(k, x). if limite < ?hoje - x then Inl (Raise (exc_intervalo_limite lib))
                 else Inr (k, days (?hoje - x)))
      (map (\<lambda>k. (k, ultima_compra k df)) (clientes df)) = Inr rec"
    by (simp add: df_recencia_def d ultimas_compras)
  then have "rec = map (\<lambda>(k, x). (k, days (?hoje - x)))
                     (map (\<lambda>k. (k, ultima_compra k df)) (clientes df))"
    by (rule apply_series_Inr_map) (auto split: if_splits)
  then show ?thesis by (simp add: comp_def recencia_de_def)
qed

lemma df_recencia_ok:
  assumes "dentro_dos_limites df"
  shows "df_recencia lib df = Inr (map (\<lambda>k. (k, recencia_de k df)) (clientes df))"
proof (cases "df = []")
  case True
  then show ?thesis by (simp add: df_recencia_def dia_atual_def clientes_def)
next
  case False
  let ?hoje = "Max (DiaCompra ` set df) + Timedelta 1"
  from False obtain t where "t \<in> set df" by (cases df) auto
  with assms have ok: "?hoje \<le> limite" by (auto simp: dentro_dos_limites_def)
  then have d: "dia_atual lib df = Inr (Some ?hoje)"
    by (simp add: dia_atual_eq [OF False])
  have fit: "?hoje - ultima_compra k df \<le> limite" if "k \<in> set (clientes df)" for k
    using that assms by (auto simp: set_clientes dentro_dos_limites_def)
  have "apply_series
      (\<lambda>(k, x). if limite < ?hoje - x then Inl (Raise (exc_intervalo_limite lib))
                 else Inr (k, days (?hoje - x)))
      (map (\<lambda>k. (k, ultima_compra k df)) (clientes df))
    = Inr (map (\<lambda>(k, x). (k, days (?hoje - x)))
            (map (\<lambda>k. (k, ultima_compra k df)) (clientes df)))"
    by (rule apply_series_all_Inr) (use fit in \<open>auto simp: not_less\<close>)
  then show ?thesis
    by (simp add: df_recencia_def d ultimas_compras comp_def recencia_de_def)
qed

lemma filter_key_distinct:
  "distinct ks \<Longrightarrow> x \<in> set ks \<Longrightarrow> filter (\<lambda>k. k = x) ks = [x]"
proof (induction ks)
  case Nil
  then show ?case by simp
next
  case (Cons a ks)
  show ?case
  proof (cases "a = x")
    case True
    with Cons.prems have "filter (\<lambda>k. k = x) ks = []"
      by (auto simp: filter_empty_conv)
    with True show ?thesis by simp
  next
    case False
    with Cons show ?thesis by simp
  qed
qed

lemma merge_keys_aux:
  "distinct ks \<Longrightarrow> set xs \<subseteq> set ks \<Longrightarrow>
   merge (map (\<lambda>k. (k, f k)) xs) (map (\<lambda>k. (k, g k)) ks) = map (\<lambda>k. (k, f k, g k)) xs"
proof (induction xs)
  case Nil
  then show ?case by (simp add: merge_def)
next
  case (Cons x xs)
  have "filter (\<lambda>(k', b). k' = x) (map (\<lambda>k. (k, g k)) ks)
          = map (\<lambda>k. (k, g k)) (filter (\<lambda>k. k = x) ks)"
    by (simp add: filter_map comp_def)
  also have "filter (\<lambda>k. k = x) ks = [x]"
    using Cons.prems by (simp add: filter_key_distinct)
  finally have one: "filter (\<lambda>(k', b). k' = x) (map (\<lambda>k. (k, g k)) ks) = [(x, g x)]"
    by simp
  from Cons show ?case
    by (simp add: merge_def one)
qed

lemma merge_same_keys:
  "distinct ks \<Longrightarrow>
   merge (map (\<lambda>k. (k, f k)) ks) (map (\<lambda>k. (k, g k)) ks) = map (\<lambda>k. (k, f k, g k)) ks"
  by (rule merge_keys_aux) simp_all

lemma juntar_eq:
  "juntar (map (\<lambda>k. (k, recencia_de k df)) (clientes df)) (df_frequencia df) (df_valor lib df)
     = tabela_esperada lib df"
proof -
  have f: "df_frequencia df =
      map (\<lambda>k. (k, length (filter (\<lambda>t. CodigoCompra t \<noteq> None) (compras_de k df))))
        (clientes df)"
    by (simp add: df_frequencia_def groupby_eq comp_def)
  have v: "df_valor lib df =
      map (\<lambda>k. (k, soma_grupo lib (coluna_inteira df) (compras_de k df))) (clientes df)"
    by (simp add: df_valor_def groupby_eq comp_def)
  show ?thesis
    unfolding juntar_def f v tabela_esperada_def
    by (simp add: merge_same_keys [OF distinct_clientes] comp_def)
qed

lemma df_RFV_Inr:
  assumes "df_RFV lib df = Inr tab"
  shows "tab = tabela_esperada lib df"
proof -
  from assms obtain rec where rec: "df_recencia lib df = Inr rec"
    and tab: "tab = juntar rec (df_frequencia df) (df_valor lib df)"
    by (auto simp: df_RFV_def split: sum.splits)
  from df_recencia_Inr [OF rec] tab show ?thesis by (simp add: juntar_eq)
qed

lemma df_RFV_ok:
  assumes "dentro_dos_limites df"
  shows "df_RFV lib df = Inr (tabela_esperada lib df)"
  by (simp add: df_RFV_def df_recencia_ok [OF assms] juntar_eq)

lemma index_tabela: "map index (tabela_esperada lib df) = map Cliente (clientes df)"
  by (simp add: tabela_esperada_def comp_def)

lemma tabela_tem_cliente:
  assumes "t \<in> set df"
  shows "\<exists>r \<in> set (tabela_esperada lib df). index r = Cliente (ID_cliente t)"
proof -
  from assms have "ID_cliente t \<in> set (clientes df)" by (simp add: set_clientes)
  then show ?thesis by (force simp: tabela_esperada_def)
qed

lemma tabela_row:
  assumes "r \<in> set (tabela_esperada lib df)" "index r = Cliente k"
  shows "k \<in> ID_cliente ` set df
       \<and> Recencia r = recencia_de k df
       \<and> Frequencia r = length (filter (\<lambda>t. CodigoCompra t \<noteq> None) (compras_de k df))
       \<and> Valor r = soma_grupo lib (coluna_inteira df) (compras_de k df)"
  using assms by (auto simp: tabela_esperada_def set_clientes)

lemma days_ge_1:
  assumes "m \<le> M"
  shows "1 \<le> days (M + Timedelta 1 - m)"
proof -
  have "days (M + Timedelta 1 - m) = (M - m) div 86400000000000 + 1"
    by (simp add: days_def Timedelta_def algebra_simps)
  moreover have "0 \<le> (M - m) div 86400000000000"
    using assms by (simp add: pos_imp_zdiv_nonneg_iff)
  ultimately show ?thesis by simp
qed

lemma recencia_de_ge_1:
  assumes "k \<in> ID_cliente ` set df"
  shows "1 \<le> recencia_de k df"
proof -
  from assms have ne: "DiaCompra ` {t \<in> set df. ID_cliente t = k} \<noteq> {}" by auto
  have "ultima_compra k df \<le> Max (DiaCompra ` set df)"
    unfolding ultima_compra_def by (rule Max_mono [OF _ ne]) auto
  from days_ge_1 [OF this] show ?thesis by (simp add: recencia_de_def)
qed


lemma ultima_compra_filter:
  "ultima_compra k df = Max (set (map DiaCompra (filter (\<lambda>t. ID_cliente t = k) df)))"
  by (simp add: ultima_compra_def)

lemma dentro_exemplo: "dentro_dos_limites compras_exemplo"
  by (simp add: dentro_dos_limites_def compras_exemplo_def ultima_compra_filter limite_def
      Timedelta_def)


lemma tabela_exemplo:
  "df_RFV biblioteca_exemplo compras_exemplo =
     Inr [\<lparr>index = Cliente ''C1'', Recencia = 1, Frequencia = 2, Valor = Int64 150\<rparr>,
          \<lparr>index = Cliente ''C2'', Recencia = 6, Frequencia = 1, Valor = Int64 200\<rparr>]"
  by (simp only: df_RFV_ok [OF dentro_exemplo])
     (simp add: tabela_esperada_def clientes_def compras_de_def
      recencia_de_def ultima_compra_filter soma_grupo_def coluna_inteira_def inteiro_de_def
      compras_exemplo_def Timedelta_def days_def)


text \<open>
  C2. When every purchase carries a purchase code, the indicator table, whenever it is
  produced, has one row per distinct customer of the purchases and no other row, and
  the frequency of a customer is the number of purchase rows with that customer, equal
  purchase codes counted each time. The table is produced when the dates are within the
  limits of the timestamps.
\<close>

theorem one_record_per_customer:
  assumes "\<forall>t \<in> set df. CodigoCompra t \<noteq> None"
  shows "(dentro_dos_limites df \<longrightarrow> (\<exists>tab. df_RFV lib df = Inr tab))
       \<and> (\<forall>tab. df_RFV lib df = Inr tab \<longrightarrow>
            distinct (map index tab)
          \<and> set (map index tab) = Cliente ` ID_cliente ` set df
          \<and> (\<forall>r \<in> set tab. \<forall>k. index r = Cliente k \<longrightarrow>
               Frequencia r = length (filter (\<lambda>t. ID_cliente t = k) df)))"
proof -
  let ?tab = "tabela_esperada lib df"
  have d: "distinct (map index ?tab)"
    unfolding index_tabela by (simp add: distinct_map distinct_clientes inj_on_def)
  have s: "set (map index ?tab) = Cliente ` ID_cliente ` set df"
    unfolding index_tabela by (simp add: set_clientes)
  have all: "filter (\<lambda>t. CodigoCompra t \<noteq> None) (compras_de k df)
             = filter (\<lambda>t. ID_cliente t = k) df" for k
    using assms by (auto simp: compras_de_def intro: filter_cong)
  have f: "Frequencia r = length (filter (\<lambda>t. ID_cliente t = k) df)"
    if "r \<in> set ?tab" "index r = Cliente k" for r k
  proof -
    from tabela_row [OF that]
    have "Frequencia r = length (filter (\<lambda>t. CodigoCompra t \<noteq> None) (compras_de k df))"
      by blast
    then show ?thesis by (simp only: all)
  qed
  have "distinct (map index tab)
      \<and> set (map index tab) = Cliente ` ID_cliente ` set df
      \<and> (\<forall>r \<in> set tab. \<forall>k. index r = Cliente k \<longrightarrow>
           Frequencia r = length (filter (\<lambda>t. ID_cliente t = k) df))"
    if "df_RFV lib df = Inr tab" for tab
    unfolding df_RFV_Inr [OF that] using d s f by blast
  then show ?thesis using df_RFV_ok [of df lib] by blast
qed

theorem one_record_per_customer_witness:
  "list_all (\<lambda>t. CodigoCompra t \<noteq> None) compras_exemplo
   \<and> dentro_dos_limites compras_exemplo
   \<and> df_RFV biblioteca_exemplo compras_exemplo =
       Inr [\<lparr>index = Cliente ''C1'', Recencia = 1, Frequencia = 2, Valor = Int64 150\<rparr>,
            \<lparr>index = Cliente ''C2'', Recencia = 6, Frequencia = 1, Valor = Int64 200\<rparr>]
   \<and> map CodigoCompra (filter (\<lambda>t. ID_cliente t = ''C1'') compras_exemplo)
       = [Some ''T1'', Some ''T1'']"
  using one_record_per_customer [of compras_exemplo biblioteca_exemplo]
  by (simp add: tabela_exemplo dentro_exemplo) (simp add: compras_exemplo_def)

text \<open>
  C3, as amended. For a non-empty purchase table the reference day is the latest
  purchase date plus one day when that sum is a timestamp, which it is up to
  2262-04-11 23:47:16.854775807; beyond it line 173 raises and there is no reference
  day. Whenever the indicator table is produced, as it is when the dates are within the
  limits, it has a row for every customer of the purchases, the recency of each customer
  is the whole number of days from that customer's latest purchase to the reference
  day, and every recency is at least 1.
\<close>

theorem recency_from_reference_day:
  assumes "df \<noteq> []"
  shows "dia_atual lib df =
           (if Max (DiaCompra ` set df) + Timedelta 1 \<le> limite
            then Inr (Some (Max (DiaCompra ` set df) + Timedelta 1))
            else Inl (Raise (exc_data_limite lib)))
       \<and> (dentro_dos_limites df \<longrightarrow> (\<exists>tab. df_RFV lib df = Inr tab))
       \<and> (\<forall>tab. df_RFV lib df = Inr tab \<longrightarrow>
            (\<forall>t \<in> set df. \<exists>r \<in> set tab. index r = Cliente (ID_cliente t))
          \<and> (\<forall>r \<in> set tab. \<forall>k. index r = Cliente k \<longrightarrow>
               Recencia r = days (Max (DiaCompra ` set df) + Timedelta 1
                                  - Max (DiaCompra ` {t \<in> set df. ID_cliente t = k}))
             \<and> 1 \<le> Recencia r))"
proof -
  let ?tab = "tabela_esperada lib df"
  have r: "Recencia r = days (Max (DiaCompra ` set df) + Timedelta 1
                               - Max (DiaCompra ` {t \<in> set df. ID_cliente t = k}))
          \<and> 1 \<le> Recencia r"
    if "r \<in> set ?tab" "index r = Cliente k" for r k
  proof -
    from tabela_row [OF that]
    have k: "k \<in> ID_cliente ` set df" and eq: "Recencia r = recencia_de k df"
      by simp_all
    from recencia_de_ge_1 [OF k] eq show ?thesis
      by (simp add: recencia_de_def ultima_compra_def)
  qed
  have "(\<forall>t \<in> set df. \<exists>r \<in> set tab. index r = Cliente (ID_cliente t))
      \<and> (\<forall>r \<in> set tab. \<forall>k. index r = Cliente k \<longrightarrow>
           Recencia r = days (Max (DiaCompra ` set df) + Timedelta 1
                              - Max (DiaCompra ` {t \<in> set df. ID_cliente t = k}))
         \<and> 1 \<le> Recencia r)"
    if "df_RFV lib df = Inr tab" for tab
    unfolding df_RFV_Inr [OF that] using r tabela_tem_cliente [of _ df lib] by blast
  then show ?thesis using df_RFV_ok [of df lib] dia_atual_eq [OF assms, of lib] by blast
qed

theorem recency_from_reference_day_witness:
  "compras_exemplo \<noteq> []
   \<and> dentro_dos_limites compras_exemplo
   \<and> dia_atual biblioteca_exemplo compras_exemplo = Inr (Some (Timedelta 19733))
   \<and> df_RFV biblioteca_exemplo compras_exemplo =
       Inr [\<lparr>index = Cliente ''C1'', Recencia = 1, Frequencia = 2, Valor = Int64 150\<rparr>,
            \<lparr>index = Cliente ''C2'', Recencia = 6, Frequencia = 1, Valor = Int64 200\<rparr>]"
  using recency_from_reference_day [of compras_exemplo biblioteca_exemplo]
  by (simp add: tabela_exemplo dentro_exemplo)
     (simp add: compras_exemplo_def dia_atual_def Timedelta_def limite_def)

text \<open>
  The claim as first stated promises a reference day for every purchase table. A
  purchase on 2262-04-11 is within a day of the largest timestamp: the sum of line 173
  raises, and no table is produced.
\<close>

theorem recency_from_reference_day_counterexample:
  "compras_2262 \<noteq> []
   \<and> dia_atual biblioteca_exemplo compras_2262 = Inl (Raise ''OutOfBoundsDatetime'')
   \<and> df_RFV biblioteca_exemplo compras_2262 = Inl (Raise ''OutOfBoundsDatetime'')"
  by (simp add: compras_2262_def df_RFV_def df_recencia_def dia_atual_def Timedelta_def
      limite_def biblioteca_exemplo_def)




subsection \<open>Malformed and empty input\<close>






lemma arquivo_exemplo_tabela:
  "calcular_df_RFV biblioteca_exemplo arquivo_exemplo =
     Inr [\<lparr>index = Cliente ''C1'', Recencia = 1, Frequencia = 2, Valor = Int64 150\<rparr>,
          \<lparr>index = Cliente ''C2'', Recencia = 6, Frequencia = 1, Valor = Int64 200\<rparr>]"
  by (simp add: calcular_df_RFV_def read_csv_def arquivo_exemplo_def linhas_exemplo_def
      limite_def Timedelta_def dia_atual_def df_recencia_def groupby_def days_def
      biblioteca_exemplo_def juntar_def merge_def df_frequencia_def df_valor_def
      soma_grupo_def coluna_inteira_def inteiro_de_def)




text \<open>
  C7, as amended. With no purchase the indicator table is empty, and the classification
  of an empty indicator table, under any quartile table, applies the class functions to
  no value and returns the empty classified table; it raises nothing.
\<close>

theorem empty_table_classified_empty:
  "df_RFV lib [] = Inr [] \<and> classificar q [] = Inr []"
  by (simp add: classificar_def df_RFV_def juntar_def merge_def df_recencia_def dia_atual_def)

theorem empty_table_classified_empty_witness:
  "df_RFV biblioteca_exemplo ([] :: (string, int) compra list) = Inr []
   \<and> classificar Map.empty ([] :: string indicadores list) = Inr []"
  using empty_table_classified_empty
    [of biblioteca_exemplo Map.empty, where ?'a = string and ?'b = string]
  by simp

text \<open>
  The claim as first stated asks for an EmptyInputError; the classification of the table
  of no purchase returns the empty table.
\<close>

theorem empty_table_counterexample:
  "df_RFV biblioteca_exemplo ([] :: (string, int) compra list) = Inr []
   \<and> classificar quartis_exemplo ([] :: string indicadores list) = Inr []
   \<and> classificar quartis_exemplo ([] :: string indicadores list)
       \<noteq> Inl (Raise ''EmptyInputError'')"
  by (simp add: classificar_def df_RFV_def juntar_def merge_def df_recencia_def dia_atual_def)

subsection \<open>Filtering\<close>

lemma renumber_filter_renumber:
  assumes "\<And>r i. Q (r\<lparr>index := i\<rparr>) = Q r"
  shows "map (\<lambda>(i, r). r\<lparr>index := Pos i\<rparr>)
           (enumerate n (filter Q (map (\<lambda>(i, r). r\<lparr>index := Pos i\<rparr>) (enumerate m xs))))
       = map (\<lambda>(i, r). r\<lparr>index := Pos i\<rparr>) (enumerate n (filter Q xs))"
  by (induction xs arbitrary: n m) (simp_all add: assms)

lemma reset_filter_reset:
  assumes "\<And>r i. Q (r\<lparr>index := i\<rparr>) = Q r"
  shows "reset_index (filter Q (reset_index xs)) = reset_index (filter Q xs)"
  unfolding reset_index_def by (rule renumber_filter_renumber [OF assms])

lemma renumber_index:
  "map index (map (\<lambda>(i, r). r\<lparr>index := Pos i\<rparr>) (enumerate n xs)) = map Pos [n..<n + length xs]"
proof (induction xs arbitrary: n)
  case Nil
  then show ?case by simp
next
  case (Cons x xs)
  have "n < n + length (x # xs)" by simp
  from upt_conv_Cons [OF this]
  have "[n..<n + length (x # xs)] = n # [Suc n..<Suc n + length xs]" by simp
  with Cons [of "Suc n"] show ?case by simp
qed

lemma renumber_columns:
  "map (\<lambda>r. r\<lparr>index := l\<rparr>) (map (\<lambda>(i, r). r\<lparr>index := Pos i\<rparr>) (enumerate n xs))
     = map (\<lambda>r. r\<lparr>index := l\<rparr>) xs"
  by (induction xs arbitrary: n) simp_all

lemma reset_index_index: "map index (reset_index xs) = map Pos [0..<length xs]"
  using renumber_index [of 0 xs] by (simp add: reset_index_def)

lemma reset_index_columns:
  "map (\<lambda>r. r\<lparr>index := l\<rparr>) (reset_index xs) = map (\<lambda>r. r\<lparr>index := l\<rparr>) xs"
  unfolding reset_index_def by (rule renumber_columns)

lemma selecao_R:
  "selecao_valores_categoricos df ''R_quartil'' s False
     = Inr (reset_index (filter (\<lambda>r. R_quartil r = s) df))"
  by (simp add: selecao_valores_categoricos_def colunas_def celula_def)

lemma selecao_F:
  "selecao_valores_categoricos df ''F_quartil'' s False
     = Inr (reset_index (filter (\<lambda>r. F_quartil r = s) df))"
  by (simp add: selecao_valores_categoricos_def colunas_def celula_def)

lemma selecao_V:
  "selecao_valores_categoricos df ''V_quartil'' s False
     = Inr (reset_index (filter (\<lambda>r. V_quartil r = s) df))"
  by (simp add: selecao_valores_categoricos_def colunas_def celula_def)

lemma df_RFV1_eq:
  "df_RFV1 df sr sf sv =
     Inr (reset_index (filter (\<lambda>r. R_quartil r = sr \<and> F_quartil r = sf \<and> V_quartil r = sv) df))"
proof -
  have "df_RFV1 df sr sf sv =
     Inr (reset_index (filter (\<lambda>r. V_quartil r = sv)
       (reset_index (filter (\<lambda>r. F_quartil r = sf)
         (reset_index (filter (\<lambda>r. R_quartil r = sr) df))))))"
    by (simp add: df_RFV1_def selecao_R selecao_F selecao_V)
  also have "\<dots> = Inr (reset_index (filter (\<lambda>r. V_quartil r = sv)
         (filter (\<lambda>r. F_quartil r = sf) (filter (\<lambda>r. R_quartil r = sr) df))))"
    by (simp add: reset_filter_reset)
  also have "\<dots> = Inr (reset_index
      (filter (\<lambda>r. R_quartil r = sr \<and> F_quartil r = sf \<and> V_quartil r = sv) df))"
    by (simp add: conj_commute conj_left_commute cong: conj_cong)
  finally show ?thesis .
qed

text \<open>
  C8, as amended. For every classified table and every three selected classes, the
  filtered table holds, in their order, exactly the rows whose recency, frequency and
  value class all equal the selection, with every column unchanged; the index of these
  rows is replaced by their positions 0, 1, 2, ... in the filtered table, so the
  customer identifier is dropped.
\<close>

theorem filter_keeps_matching_rows:
  "df_RFV1 df sr sf sv =
     Inr (reset_index
       (filter (\<lambda>r. R_quartil r = sr \<and> F_quartil r = sf \<and> V_quartil r = sv) df))
   \<and> map index (reset_index
       (filter (\<lambda>r. R_quartil r = sr \<and> F_quartil r = sf \<and> V_quartil r = sv) df))
     = map Pos
         [0..<length (filter (\<lambda>r. R_quartil r = sr \<and> F_quartil r = sf \<and> V_quartil r = sv) df)]
   \<and> (\<forall>l. map (\<lambda>r. r\<lparr>index := l\<rparr>) (reset_index
            (filter (\<lambda>r. R_quartil r = sr \<and> F_quartil r = sf \<and> V_quartil r = sv) df))
          = map (\<lambda>r. r\<lparr>index := l\<rparr>)
            (filter (\<lambda>r. R_quartil r = sr \<and> F_quartil r = sf \<and> V_quartil r = sv) df))"
  by (simp add: df_RFV1_eq reset_index_index reset_index_columns)

theorem filter_keeps_matching_rows_witness:
  "df_RFV1 tabela_classificada ''A'' ''A'' ''A'' =
     Inr [\<lparr>index = Pos 0, Recencia = 1, Frequencia = 2, Valor = Int64 150,
           R_quartil = ''A'', F_quartil = ''A'', V_quartil = ''A''\<rparr>,
          \<lparr>index = Pos 1, Recencia = 2, Frequencia = 3, Valor = Int64 170,
           R_quartil = ''A'', F_quartil = ''A'', V_quartil = ''A''\<rparr>]"
  using filter_keeps_matching_rows [of tabela_classificada "''A''" "''A''" "''A''"]
  by (simp add: reset_index_def tabela_classificada_def)

text \<open>
  The claim as first stated has the filter return the matching rows of the classified
  table themselves; the rows returned have lost their customer index.
\<close>

theorem filter_identity_counterexample:
  "df_RFV1 tabela_classificada ''A'' ''A'' ''A''
     \<noteq> Inr (filter (\<lambda>r. R_quartil r = ''A'' \<and> F_quartil r = ''A'' \<and> V_quartil r = ''A'')
            tabela_classificada)"
  by (simp add: df_RFV1_def selecao_valores_categoricos_def colunas_def celula_def
        reset_index_def tabela_classificada_def)

subsection \<open>The comment map\<close>

text \<open>
  C9. From any session state, a run that stores a comment under a code followed by a run
  that clears that code leaves the comment of every other code as it was before both;
  after the button that clears the saved comments, and after the button that clears all
  data, the comment map the script works with is empty.
\<close>

theorem comment_map_frame:
  "\<exists>m st1 st2 m2.
      comentarios_rfv (iniciar_comentarios st) = Some m
    \<and> botoes_comentario True False score texto (iniciar_comentarios st) = Inr st1
    \<and> botoes_comentario False True score texto' (iniciar_comentarios st1) = Inr st2
    \<and> comentarios_rfv st2 = Some m2
    \<and> (\<forall>outro. outro \<noteq> score \<longrightarrow> m2 outro = m outro)
    \<and> comentarios_visiveis (limpar_comentarios st) = Some Map.empty
    \<and> comentarios_visiveis (limpar_dados st) = Some Map.empty"
  by (cases "comentarios_rfv st")
     (auto simp: iniciar_comentarios_def botoes_comentario_def comentarios_visiveis_def
        limpar_comentarios_def limpar_dados_def)

theorem comment_map_frame_witness:
  "botoes_comentario True False (rfv_score_atual ''A'' ''A'' ''A'') ''vip''
       (iniciar_comentarios sessao_exemplo)
     = Inr (sessao_exemplo\<lparr>comentarios_rfv :=
              Some [''ABA'' \<mapsto> ''reativar'', ''DDD'' \<mapsto> ''cupom'', ''AAA'' \<mapsto> ''vip'']\<rparr>)
   \<and> botoes_comentario False True (rfv_score_atual ''A'' ''A'' ''A'') ''''
       (iniciar_comentarios (sessao_exemplo\<lparr>comentarios_rfv :=
              Some [''ABA'' \<mapsto> ''reativar'', ''DDD'' \<mapsto> ''cupom'', ''AAA'' \<mapsto> ''vip'']\<rparr>))
     = Inr (sessao_exemplo\<lparr>comentarios_rfv :=
              Some ([''ABA'' \<mapsto> ''reativar'', ''DDD'' \<mapsto> ''cupom'', ''AAA'' \<mapsto> ''vip'']
                      (''AAA'' := None))\<rparr>)
   \<and> ''ABA'' \<noteq> rfv_score_atual ''A'' ''A'' ''A''
   \<and> ([''ABA'' \<mapsto> ''reativar'', ''DDD'' \<mapsto> ''cupom'', ''AAA'' \<mapsto> ''vip''](''AAA'' := None))
       ''ABA'' = Some ''reativar''
   \<and> comentarios_visiveis (limpar_comentarios sessao_exemplo) = Some Map.empty"
  using comment_map_frame [of sessao_exemplo "rfv_score_atual ''A'' ''A'' ''A''" "''vip''" "''''"]
  by (simp add: iniciar_comentarios_def botoes_comentario_def comentarios_visiveis_def
        limpar_comentarios_def rfv_score_atual_def sessao_exemplo_def)

end
